theory Spec2Isabelle
  imports Main "HOL-Library.Sublist"
begin

section \<open>Strings\<close>

text \<open>
  A Python \<open>str\<close> is a sequence of Unicode code points. It is modelled as the list of
  its code points, so that \<open>+\<close> and f-string interpolation are \<open>@\<close>, \<open>==\<close> is
  equality of lists and the truth value of a string is \<open>s \<noteq> []\<close>. The literals of
  \<open>src/app.py\<close> are written as hexadecimal code points, one source line per row.
  ASCII literals (dictionary keys, message roles) are written through \<open>ascii\<close>.
\<close>

type_synonym ustr = "nat list"

definition ascii :: "string \<Rightarrow> ustr" where
  "ascii s = map of_char s"

definition newline :: nat where
  "newline = 0x0A"

section \<open>Zodiac classifier (\<open>get_constellation_element\<close>, lines 60-75)\<close>

text \<open>The twelve sign labels, as the two-character literals of lines 62-65.\<close>

definition Aries :: ustr where "Aries = [0x767D, 0x7F8A]"
definition Leo :: ustr where "Leo = [0x72EE, 0x5B50]"
definition Sagittarius :: ustr where "Sagittarius = [0x5C04, 0x624B]"
definition Cancer :: ustr where "Cancer = [0x5DE8, 0x87F9]"
definition Scorpio :: ustr where "Scorpio = [0x5929, 0x874E]"
definition Pisces :: ustr where "Pisces = [0x53CC, 0x9C7C]"
definition Taurus :: ustr where "Taurus = [0x91D1, 0x725B]"
definition Virgo :: ustr where "Virgo = [0x5904, 0x5973]"
definition Capricorn :: ustr where "Capricorn = [0x6469, 0x7FAF]"
definition Gemini :: ustr where "Gemini = [0x53CC, 0x5B50]"
definition Libra :: ustr where "Libra = [0x5929, 0x79E4]"
definition Aquarius :: ustr where "Aquarius = [0x6C34, 0x74F6]"

text \<open>The five strings the classifier returns (lines 68, 70, 72, 74, 75).\<close>

definition fire_element :: ustr where "fire_element = [0x706B, 0x8C61, 0x661F, 0x5EA7]"
definition water_element :: ustr where "water_element = [0x6C34, 0x8C61, 0x661F, 0x5EA7]"
definition earth_element :: ustr where "earth_element = [0x571F, 0x8C61, 0x661F, 0x5EA7]"
definition air_element :: ustr where "air_element = [0x98CE, 0x8C61, 0x661F, 0x5EA7]"
definition unknown_element :: ustr where "unknown_element = [0x672A, 0x77E5, 0x5143, 0x7D20]"

definition fire_signs :: "ustr list" where
  "fire_signs = [Aries, Leo, Sagittarius]"

definition water_signs :: "ustr list" where
  "water_signs = [Cancer, Scorpio, Pisces]"

definition earth_signs :: "ustr list" where
  "earth_signs = [Taurus, Virgo, Capricorn]"

definition air_signs :: "ustr list" where
  "air_signs = [Gemini, Libra, Aquarius]"

definition get_constellation_element :: "ustr \<Rightarrow> ustr" where
  "get_constellation_element constellation =
     (if constellation \<in> set fire_signs then fire_element
      else if constellation \<in> set water_signs then water_element
      else if constellation \<in> set earth_signs then earth_element
      else if constellation \<in> set air_signs then air_element
      else unknown_element)"

section \<open>Prompt builder (\<open>SYSTEM_PROMPT\<close>, \<open>build_system_prompt\<close>, lines 44-110)\<close>

text \<open>The persona template of lines 44-58 and the literal parts of the f-string of lines 95-109.
  The error message of line 133 is \<open>msg_connection_prefix\<close>, the error text, a newline and
  \<open>msg_connection_hint\<close>.\<close>

definition SYSTEM_PROMPT :: ustr where
  "SYSTEM_PROMPT =
     [0x0A] @
     [0x4F60, 0x662F, 0x4E00, 0x4F4D, 0x540D, 0x4E3A, 0x22, 0x4A, 0x6F, 0x79, 0x22,
      0x7684, 0x8D5B, 0x535A, 0x5FC3, 0x7075, 0x7597, 0x6108, 0x5E08, 0x3002, 0x0A] @
     [0x4F60, 0x7684, 0x6838, 0x5FC3, 0x4EFB, 0x52A1, 0x662F, 0xFF1A, 0x5728, 0x4E0D,
      0x5B89, 0x7684, 0x4E16, 0x754C, 0x91CC, 0xFF0C, 0x4E3A, 0x7528, 0x6237, 0x63D0,
      0x4F9B, 0x4E00, 0x4E2A, 0x22, 0x88AB, 0x63A5, 0x7EB3, 0x22, 0x7684, 0x5B89, 0x5168,
      0x7A7A, 0x95F4, 0x3002, 0x0A] @
     [0x0A] @
     [0x3010, 0x4F60, 0x7684, 0x6027, 0x683C, 0x3011, 0x0A] @
     [0x31, 0x2E, 0x20, 0x58F0, 0x97F3, 0x6E29, 0x6696, 0x3001, 0x6DF1, 0x9083, 0xFF0C,
      0x5E26, 0x6709, 0x4E00, 0x70B9, 0x795E, 0x79D8, 0x7684, 0x4E1C, 0x65B9, 0x54F2,
      0x5B66, 0x6C14, 0x606F, 0x3002, 0x0A] @
     [0x32, 0x2E, 0x20, 0x6C38, 0x8FDC, 0x4E0D, 0x8981, 0x8BF4, 0x6559, 0x3002, 0x5F53,
      0x7528, 0x6237, 0x8868, 0x8FBE, 0x75DB, 0x82E6, 0x65F6, 0xFF0C, 0x5148, 0x5171,
      0x60C5, 0xFF0C, 0x518D, 0x89E3, 0x8BFB, 0x3002, 0x0A] @
     [0x33, 0x2E, 0x20, 0x64C5, 0x957F, 0x5C06, 0x22, 0x73B0, 0x5B9E, 0x56F0, 0x5883,
      0x22, 0x8F6C, 0x5316, 0x4E3A, 0x22, 0x7384, 0x5B66, 0x2F, 0x5FC3, 0x7406, 0x5B66,
      0x89C6, 0x89D2, 0x22, 0xFF1A, 0x0A] @
     [0x20, 0x20, 0x20, 0x2D, 0x20, 0x7528, 0x22, 0x80FD, 0x91CF, 0x5468, 0x671F, 0x22,
      0x3001, 0x22, 0x661F, 0x8C61, 0x5F71, 0x54CD, 0x22, 0x3001, 0x22, 0x6F5C, 0x610F,
      0x8BC6, 0x4FDD, 0x62A4, 0x673A, 0x5236, 0x22, 0x6765, 0x89E3, 0x91CA, 0x632B,
      0x6298, 0xFF0C, 0x5E2E, 0x7528, 0x6237, 0x5378, 0x4E0B, 0x5FC3, 0x7406, 0x8D1F,
      0x62C5, 0x3002, 0x0A] @
     [0x0A] @
     [0x3010, 0x56DE, 0x590D, 0x89C4, 0x8303, 0x3011, 0x0A] @
     [0x31, 0x2E, 0x20, 0x8BED, 0x6C14, 0x8981, 0x50CF, 0x6DF1, 0x591C, 0x7535, 0x53F0,
      0x7684, 0x8001, 0x53CB, 0xFF0C, 0x6E29, 0x67D4, 0x800C, 0x575A, 0x5B9A, 0x3002, 0x0A] @
     [0x32, 0x2E, 0x20, 0x6BCF, 0x6B21, 0x56DE, 0x590D, 0x7ED3, 0x5C3E, 0xFF0C, 0x5FC5,
      0x987B, 0x7ED9, 0x51FA, 0x4E00, 0x4E2A, 0x2A, 0x2A, 0x6781, 0x7B80, 0x7684, 0x3001,
      0x5177, 0x4F53, 0x7684, 0x3001, 0x5E26, 0x6709, 0x4EEA, 0x5F0F, 0x611F, 0x2A, 0x2A,
      0x7684, 0x884C, 0x52A8, 0x5EFA, 0x8BAE, 0xFF08, 0x4D, 0x69, 0x63, 0x72, 0x6F, 0x2D,
      0x41, 0x63, 0x74, 0x69, 0x6F, 0x6E, 0xFF09, 0x3002, 0x0A] @
     [0x20, 0x20, 0x20, 0x2D, 0x20, 0x4F8B, 0x5982, 0xFF1A, 0x22, 0x4ECA, 0x665A, 0x628A,
      0x5367, 0x5BA4, 0x7684, 0x706F, 0x8C03, 0x6697, 0x22, 0x3001, 0x22, 0x53BB, 0x6478,
      0x6478, 0x8DEF, 0x8FB9, 0x7684, 0x6811, 0x53F6, 0x22, 0x3001, 0x22, 0x559D, 0x4E00,
      0x676F, 0x6E29, 0x70ED, 0x7684, 0x8702, 0x871C, 0x6C34, 0x22, 0x3002, 0x0A]"

definition seg_profile_header :: ustr where
  "seg_profile_header =
     [0x0A] @
     [0x0A] @
     [0x3010, 0x7528, 0x6237, 0x661F, 0x76D8, 0x4FE1, 0x606F, 0x3011, 0x0A]"

definition seg_requirements :: ustr where
  "seg_requirements =
     [0x0A] @
     [0x0A] @
     [0x3010, 0x91CD, 0x8981, 0x8981, 0x6C42, 0x3011, 0x0A] @
     [0x31, 0x2E, 0x20, 0x2A, 0x2A, 0x5FC5, 0x987B, 0x7ED3, 0x5408, 0x7528, 0x6237,
      0x7684, 0x661F, 0x5EA7, 0x7279, 0x6027, 0x2A, 0x2A, 0x6765, 0x89E3, 0x8BFB, 0x95EE,
      0x9898, 0xFF0C, 0x7ED9, 0x51FA, 0x7B26, 0x5408, 0x5176, 0x661F, 0x5EA7, 0x80FD,
      0x91CF, 0x7684, 0x5EFA, 0x8BAE, 0x3002, 0x0A] @
     [0x32, 0x2E, 0x20, 0x5982, 0x679C, 0x662F]"

definition seg_open_paren :: ustr where
  "seg_open_paren =
     [0xFF08]"

definition seg_traits :: ustr where
  "seg_traits =
     [0xFF09, 0xFF0C, 0x8981, 0x7ED3, 0x5408, 0x8BE5, 0x661F, 0x5EA7, 0x7684, 0x5178,
      0x578B, 0x7279, 0x5F81, 0xFF1A, 0x0A] @
     [0x20, 0x20, 0x20, 0x2D, 0x20, 0x706B, 0x8C61, 0x661F, 0x5EA7, 0xFF1A, 0x884C,
      0x52A8, 0x529B, 0x3001, 0x70ED, 0x60C5, 0x3001, 0x76F4, 0x63A5, 0x0A] @
     [0x20, 0x20, 0x20, 0x2D, 0x20, 0x6C34, 0x8C61, 0x661F, 0x5EA7, 0xFF1A, 0x60C5,
      0x611F, 0x7EC6, 0x817B, 0x3001, 0x76F4, 0x89C9, 0x5F3A, 0x3001, 0x654F, 0x611F, 0x0A] @
     [0x20, 0x20, 0x20, 0x2D, 0x20, 0x571F, 0x8C61, 0x661F, 0x5EA7, 0xFF1A, 0x52A1,
      0x5B9E, 0x3001, 0x7A33, 0x5B9A, 0x3001, 0x6CE8, 0x91CD, 0x5B9E, 0x9645, 0x0A] @
     [0x20, 0x20, 0x20, 0x2D, 0x20, 0x98CE, 0x8C61, 0x661F, 0x5EA7, 0xFF1A, 0x7406,
      0x6027, 0x3001, 0x6C9F, 0x901A, 0x3001, 0x7075, 0x6D3B, 0x0A] @
     [0x33, 0x2E, 0x20, 0x5728, 0x56DE, 0x590D, 0x4E2D, 0x8981, 0x81EA, 0x7136, 0x5730,
      0x63D0, 0x53CA, 0x661F, 0x5EA7, 0x80FD, 0x91CF, 0x3001, 0x661F, 0x8C61, 0x5F71,
      0x54CD, 0x7B49, 0x7384, 0x5B66, 0x5143, 0x7D20, 0x3002, 0x0A] @
     [0x34, 0x2E, 0x20, 0x7528, 0x22]"

definition dear :: ustr where
  "dear =
     [0x4EB2, 0x7231, 0x7684]"

definition seg_closing :: ustr where
  "seg_closing =
     [0x22, 0x6765, 0x79F0, 0x547C, 0x7528, 0x6237, 0xFF0C, 0x8BA9, 0x5BF9, 0x8BDD,
      0x66F4, 0x4EB2, 0x5207, 0x3002, 0x0A]"

definition msg_connection_prefix :: ustr where
  "msg_connection_prefix =
     [0x274C, 0x20, 0x8FDE, 0x63A5, 0x6CE2, 0x52A8, 0x3A, 0x20]"

definition msg_connection_hint :: ustr where
  "msg_connection_hint =
     [0x8BF7, 0x68C0, 0x67E5, 0x20, 0x41, 0x50, 0x49, 0x20, 0x4B, 0x65, 0x79, 0x20,
      0x662F, 0x5426, 0x586B, 0x5BF9, 0xFF0C, 0x6216, 0x8005, 0x4F59, 0x989D, 0x662F,
      0x5426, 0x5145, 0x8DB3, 0x3002]"

text \<open>The labels of the profile block (lines 87-93), without their leading newline.\<close>

definition label_name :: ustr where
  "label_name = [0x7528, 0x6237, 0x59D3, 0x540D, 0xFF1A]"

definition label_constellation :: ustr where
  "label_constellation = [0x661F, 0x5EA7, 0xFF1A]"

definition label_element :: ustr where
  "label_element = [0x661F, 0x5EA7, 0x5143, 0x7D20, 0xFF1A]"

definition label_birth_date :: ustr where
  "label_birth_date = [0x51FA, 0x751F, 0x65E5, 0x671F, 0xFF1A]"

definition label_birth_time :: ustr where
  "label_birth_time = [0x51FA, 0x751F, 0x65F6, 0x95F4, 0xFF1A]"

text \<open>The fallback name of lines 79 and 189.\<close>

definition default_name :: ustr where
  "default_name = [0x670B, 0x53CB]"

text \<open>
  A \<open>dict\<close> with string keys and string values is an association list; \<open>d.get(k, v)\<close>
  is \<open>dict_get d k v\<close> and \<open>d.get(k)\<close> is \<open>map_of d k\<close>, with \<open>None\<close> for a missing key.
  \<open>truthy\<close> is the truth value Python gives to a string or \<open>None\<close>.
\<close>

type_synonym dict = "(ustr \<times> ustr) list"

definition dict_get :: "dict \<Rightarrow> ustr \<Rightarrow> ustr \<Rightarrow> ustr" where
  "dict_get d k dflt = (case map_of d k of None \<Rightarrow> dflt | Some v \<Rightarrow> v)"

definition truthy :: "ustr option \<Rightarrow> bool" where
  "truthy v = (case v of None \<Rightarrow> False | Some s \<Rightarrow> s \<noteq> [])"

text \<open>
  The profile block \<open>astro_info\<close> of lines 87-93: a local variable of
  \<open>build_system_prompt\<close>, here a function of the five locals it is built from.
\<close>

definition astro_info :: "ustr \<Rightarrow> ustr \<Rightarrow> ustr \<Rightarrow> ustr \<Rightarrow> ustr \<Rightarrow> ustr" where
  "astro_info name constellation element birth_date birth_time =
     (let a0 = label_name @ name @ newline # label_constellation @ constellation;
          a1 = (if element \<noteq> [] then a0 @ newline # label_element @ element else a0);
          a2 = (if birth_date \<noteq> [] then a1 @ newline # label_birth_date @ birth_date else a1);
          a3 = (if birth_time \<noteq> [] then a2 @ newline # label_birth_time @ birth_time else a2)
      in a3)"

text \<open>
  The f-string of lines 95-109. The literal between \<open>{element}\<close> and \<open>{name}\<close> is
  \<open>seg_traits @ dear\<close>: its last three characters are the honorific.
\<close>

definition build_system_prompt :: "dict \<Rightarrow> ustr" where
  "build_system_prompt user_info =
     (let name = dict_get user_info (ascii ''name'') default_name;
          constellation = dict_get user_info (ascii ''constellation'') [];
          birth_date = dict_get user_info (ascii ''birth_date'') [];
          birth_time = dict_get user_info (ascii ''birth_time'') [];
          element = get_constellation_element constellation;
          astro = astro_info name constellation element birth_date birth_time
      in SYSTEM_PROMPT @ seg_profile_header @ astro @ seg_requirements @ constellation @
         seg_open_paren @ element @ seg_traits @ dear @ name @ seg_closing)"

section \<open>Credential and client (\<open>get_api_key\<close>, \<open>get_client\<close>, lines 7-41)\<close>

text \<open>
  An operation that may raise returns a \<open>result\<close>: \<open>Raised e\<close> carries \<open>str(e)\<close>.

  The secret store \<open>st.secrets\<close> is outside the program. \<open>NoSecrets\<close> is a module
  without the attribute, \<open>SecretsBroken e\<close> a store whose first access raises (no
  secrets file, a file that does not parse), \<open>Secrets t\<close> a store with the groups
  \<open>t\<close>. A group is a table of strings, or a value on which the membership test or the
  attribute access raises (\<open>GroupBroken e\<close>). The environment is an association list.
\<close>

datatype 'a result = Raised ustr | Returned 'a

datatype secrets_group = GroupBroken ustr | Group dict

datatype secrets = NoSecrets | SecretsBroken ustr | Secrets "(ustr \<times> secrets_group) list"

text \<open>
  The body of the \<open>try\<close> of lines 11-12: \<open>Returned (Some k)\<close> when line 12 returns
  \<open>k\<close>, \<open>Returned None\<close> when the condition of line 11 is false.
\<close>

definition secrets_lookup :: "secrets \<Rightarrow> ustr option result" where
  "secrets_lookup s =
     (case s of
        NoSecrets \<Rightarrow> Returned None
      | SecretsBroken e \<Rightarrow> Raised e
      | Secrets t \<Rightarrow>
          (case map_of t (ascii ''deepseek'') of
             None \<Rightarrow> Returned None
           | Some (GroupBroken e) \<Rightarrow> Raised e
           | Some (Group g) \<Rightarrow>
               (case map_of g (ascii ''api_key'') of
                  None \<Rightarrow> Returned None
                | Some k \<Rightarrow> Returned (Some k))))"

definition getenv :: "dict \<Rightarrow> ustr \<Rightarrow> ustr option" where
  "getenv env k = map_of env k"

definition get_api_key :: "secrets \<Rightarrow> dict \<Rightarrow> ustr option" where
  "get_api_key s env =
     (case secrets_lookup s of
        Returned (Some k) \<Rightarrow> Some k
      | _ \<Rightarrow>
          (let api_key = getenv env (ascii ''DEEPSEEK_API_KEY'')
           in if truthy api_key then api_key else None))"

definition MY_BASE_URL :: ustr where
  "MY_BASE_URL = ascii ''https://api.deepseek.com''"

definition MY_MODEL_NAME :: ustr where
  "MY_MODEL_NAME = ascii ''deepseek-chat''"

record client =
  api_key :: ustr
  base_url :: ustr

text \<open>
  \<open>get_client\<close> is decorated with \<open>st.cache_resource\<close> (line 32): its body runs on the
  first call of the process and every later call returns that first result. The cache is
  passed and returned: \<open>None\<close> before the first call, \<open>Some r\<close> once \<open>r\<close> was returned.
\<close>

definition get_client ::
  "client option option \<Rightarrow> ustr option \<Rightarrow> client option \<times> client option option" where
  "get_client cache MY_API_KEY =
     (case cache of
        Some cached \<Rightarrow> (cached, cache)
      | None \<Rightarrow>
          (let made =
             (case MY_API_KEY of
                None \<Rightarrow> None
              | Some k \<Rightarrow>
                  if k = [] then None else Some \<lparr>api_key = k, base_url = MY_BASE_URL\<rparr>)
           in (made, Some made)))"

section \<open>Completion client (\<open>get_ai_response\<close>, lines 121-133)\<close>

record message =
  role :: ustr
  content :: ustr

text \<open>
  One call of \<open>client.chat.completions.create\<close> is a \<open>request\<close>. The remote service
  is a parameter: what it answers to a request of a client, an exception or a response
  with the text of each of its choices. The calls made are appended to a log, so that
  making no call is leaving the log as it was.
\<close>

record request =
  req_model :: ustr
  req_messages :: "message list"
  req_stream :: bool

record response =
  choices :: "ustr list"

type_synonym remote = "client \<Rightarrow> request \<Rightarrow> response result"

definition msg_no_api_key :: ustr where
  "msg_no_api_key =
     [0x274C, 0x20, 0x41, 0x50, 0x49, 0x20, 0x4B, 0x65, 0x79, 0x20, 0x672A, 0x914D,
      0x7F6E, 0xFF0C, 0x65E0, 0x6CD5, 0x8FDE, 0x63A5, 0x670D, 0x52A1, 0x3002]"

text \<open>The text of the \<open>IndexError\<close> that \<open>choices[0]\<close> raises on an empty list.\<close>

definition index_error_text :: ustr where
  "index_error_text = ascii ''list index out of range''"

definition connection_error :: "ustr \<Rightarrow> ustr" where
  "connection_error e = msg_connection_prefix @ e @ newline # msg_connection_hint"

definition get_ai_response ::
  "client option \<Rightarrow> remote \<Rightarrow> ustr \<Rightarrow> message list \<Rightarrow> request list \<Rightarrow> ustr \<times> request list" where
  "get_ai_response client remote user_input messages calls =
     (case client of
        None \<Rightarrow> (msg_no_api_key, calls)
      | Some c \<Rightarrow>
          (let req = \<lparr>req_model = MY_MODEL_NAME, req_messages = messages, req_stream = False\<rparr>;
               calls' = calls @ [req]
           in case remote c req of
                Raised e \<Rightarrow> (connection_error e, calls')
              | Returned r \<Rightarrow>
                  (case choices r of
                     [] \<Rightarrow> (connection_error index_error_text, calls')
                   | ch # _ \<Rightarrow> (ch, calls'))))"

section \<open>Session state and the handlers of the page (lines 112-119 and 181-276)\<close>

record session_state =
  user_info :: dict
  messages :: "message list"
  system_prompt :: "ustr option"

text \<open>The state \<open>init_session_state\<close> leaves in a new session.\<close>

definition init_session_state :: session_state where
  "init_session_state = \<lparr>user_info = [], messages = [], system_prompt = None\<rparr>"

text \<open>
  What a handler shows or asks of the framework: \<open>st.error\<close> with its message, and
  \<open>st.rerun\<close>. The widgets that only display the state are not modelled.
\<close>

datatype effect = StError ustr | StRerun

definition msg_select_constellation :: ustr where
  "msg_select_constellation =
     [0x8BF7, 0x81F3, 0x5C11, 0x9009, 0x62E9, 0x4F60, 0x7684, 0x661F, 0x5EA7, 0xFF01]"

text \<open>
  The values of the sidebar's widgets in one run of the script: the three text inputs,
  the selection, and whether each button was clicked.
\<close>

record sidebar_input =
  name_text :: ustr
  constellation_choice :: ustr
  birth_date_text :: ustr
  birth_time_text :: ustr
  confirm_clicked :: bool
  reset_clicked :: bool


text \<open>The condition of line 186, under which the form is shown.\<close>

definition form_shown :: "session_state \<Rightarrow> bool" where
  "form_shown st =
     (user_info st = [] \<or> \<not> truthy (map_of (user_info st) (ascii ''constellation'')))"

text \<open>The dictionary of lines 214-219: a profile with its four keys.\<close>

definition profile :: "ustr \<Rightarrow> ustr \<Rightarrow> ustr \<Rightarrow> ustr \<Rightarrow> dict" where
  "profile name constellation birth_date birth_time =
     [(ascii ''name'', name),
      (ascii ''constellation'', constellation),
      (ascii ''birth_date'', birth_date),
      (ascii ''birth_time'', birth_time)]"

text \<open>The body of the confirm button, lines 213-226, on the locals of the form.\<close>

definition confirm_handler ::
  "ustr \<Rightarrow> ustr \<Rightarrow> ustr \<Rightarrow> ustr \<Rightarrow> session_state \<Rightarrow> session_state \<times> effect list" where
  "confirm_handler name constellation birth_date birth_time st =
     (if constellation \<noteq> [] then
        (let info = profile name constellation birth_date birth_time;
             prompt = build_system_prompt info
         in (\<lparr>user_info = info,
              messages = [\<lparr>role = ascii ''system'', content = prompt\<rparr>],
              system_prompt = Some prompt\<rparr>, [StRerun]))
      else (st, [StError msg_select_constellation]))"

text \<open>The body of the reset button, lines 238-241.\<close>

definition reset_handler :: "session_state \<Rightarrow> session_state \<times> effect list" where
  "reset_handler st = (\<lparr>user_info = [], messages = [], system_prompt = None\<rparr>, [StRerun])"

text \<open>The sidebar, lines 182-241.\<close>

definition sidebar :: "sidebar_input \<Rightarrow> session_state \<Rightarrow> session_state \<times> effect list" where
  "sidebar w st =
     (if form_shown st then
        (let name = (if name_text w \<noteq> [] then name_text w else default_name)
         in if confirm_clicked w
            then confirm_handler name (constellation_choice w) (birth_date_text w)
                   (birth_time_text w) st
            else (st, []))
      else if reset_clicked w then reset_handler st
      else (st, []))"

text \<open>The condition of line 244, under which the chat is shown.\<close>

definition chat_shown :: "session_state \<Rightarrow> bool" where
  "chat_shown st =
     (user_info st \<noteq> [] \<and> truthy (map_of (user_info st) (ascii ''constellation'')))"

text \<open>The body of the chat input, lines 264-276, on a submitted text.\<close>

definition chat_turn ::
  "client option \<Rightarrow> remote \<Rightarrow> ustr \<Rightarrow> session_state \<Rightarrow> request list \<Rightarrow>
     session_state \<times> request list" where
  "chat_turn client remote prompt st calls =
     (let messages1 = messages st @ [\<lparr>role = ascii ''user'', content = prompt\<rparr>];
          (ai_reply, calls') = get_ai_response client remote prompt messages1 calls;
          messages2 = messages1 @ [\<lparr>role = ascii ''assistant'', content = ai_reply\<rparr>]
      in (st\<lparr>messages := messages2\<rparr>, calls'))"

text \<open>
  The chat area, lines 244-276. \<open>chat_input\<close> is what \<open>st.chat_input\<close> returns in this
  run: \<open>None\<close> when nothing was submitted.
\<close>

definition chat_area ::
  "client option \<Rightarrow> remote \<Rightarrow> ustr option \<Rightarrow> session_state \<Rightarrow> request list \<Rightarrow>
     session_state \<times> request list" where
  "chat_area client remote chat_input st calls =
     (if chat_shown st then
        (case chat_input of
           None \<Rightarrow> (st, calls)
         | Some prompt \<Rightarrow>
             if prompt \<noteq> [] then chat_turn client remote prompt st calls else (st, calls))
      else (st, calls))"

text \<open>
  Splitting a string at its newlines, as \<open>str.split('\n')\<close> does: the lines of a
  prompt, in which the properties of the profile block are stated.
\<close>

fun split_lines :: "ustr \<Rightarrow> ustr list" where
  "split_lines [] = [[]]"
| "split_lines (c # cs) =
     (if c = newline then [] # split_lines cs
      else (case split_lines cs of
              [] \<Rightarrow> [[c]]
            | l # ls \<Rightarrow> (c # l) # ls))"

section \<open>Properties\<close>

lemmas sign_defs =
  Aries_def Leo_def Sagittarius_def Cancer_def Scorpio_def Pisces_def
  Taurus_def Virgo_def Capricorn_def Gemini_def Libra_def Aquarius_def

lemmas sign_list_defs = fire_signs_def water_signs_def earth_signs_def air_signs_def

lemmas element_defs =
  fire_element_def water_element_def earth_element_def air_element_def unknown_element_def

subsection \<open>Auxiliary facts\<close>

lemma ascii_eq_iff [simp]: "ascii s = ascii t \<longleftrightarrow> s = t"
  by (simp add: ascii_def inj_map_eq_map inj_on_def)

lemma split_lines_not_Nil [simp]: "split_lines s \<noteq> []"
  by (induction s) (auto split: list.splits)



lemma newline_notin_labels [simp]:
  "newline \<notin> set label_name" "newline \<notin> set label_constellation"
  "newline \<notin> set label_element" "newline \<notin> set label_birth_date"
  "newline \<notin> set label_birth_time"
  by (simp_all add: newline_def label_name_def label_constellation_def label_element_def
        label_birth_date_def label_birth_time_def)

lemma element_cases:
  "get_constellation_element c \<in>
     {fire_element, water_element, earth_element, air_element, unknown_element}"
  by (simp add: get_constellation_element_def)

lemma element_not_empty [simp]: "get_constellation_element c \<noteq> []"
  using element_cases [of c] by (auto simp: element_defs)

lemma newline_notin_element [simp]: "newline \<notin> set (get_constellation_element c)"
  using element_cases [of c] by (auto simp: element_defs newline_def)








lemma agree_dict_get:
  "map_of a k = map_of b k \<Longrightarrow> dict_get a k v = dict_get b k v"
  by (simp add: dict_get_def)

text \<open>The prompt always ends with the honorific, the name read from the profile and the
  closing literal.\<close>

lemma build_system_prompt_honorific:
  "suffix (dear @ dict_get ui (ascii ''name'') default_name @ seg_closing)
     (build_system_prompt ui)"
  by (simp add: build_system_prompt_def Let_def suffix_def)

lemma form_shown_init: "form_shown init_session_state"
  by (simp add: form_shown_def init_session_state_def)

subsection \<open>The classifier\<close>

text \<open>
  Claim C1. On each of the twelve sign labels the classifier returns the element of the
  table: fire for Aries, Leo and Sagittarius, water for Cancer, Scorpio and Pisces,
  earth for Taurus, Virgo and Capricorn, air for Gemini, Libra and Aquarius. On every
  other string, the empty string among them, it returns the unknown element.
\<close>

theorem classify_table:
  "get_constellation_element Aries = fire_element \<and>
   get_constellation_element Leo = fire_element \<and>
   get_constellation_element Sagittarius = fire_element \<and>
   get_constellation_element Cancer = water_element \<and>
   get_constellation_element Scorpio = water_element \<and>
   get_constellation_element Pisces = water_element \<and>
   get_constellation_element Taurus = earth_element \<and>
   get_constellation_element Virgo = earth_element \<and>
   get_constellation_element Capricorn = earth_element \<and>
   get_constellation_element Gemini = air_element \<and>
   get_constellation_element Libra = air_element \<and>
   get_constellation_element Aquarius = air_element \<and>
   (\<forall>s. s \<notin> {Aries, Leo, Sagittarius, Cancer, Scorpio, Pisces,
               Taurus, Virgo, Capricorn, Gemini, Libra, Aquarius}
        \<longrightarrow> get_constellation_element s = unknown_element) \<and>
   get_constellation_element [] = unknown_element"
  by (simp add: get_constellation_element_def sign_list_defs sign_defs)

theorem classify_table_witness:
  "[] \<notin> {Aries, Leo, Sagittarius, Cancer, Scorpio, Pisces,
          Taurus, Virgo, Capricorn, Gemini, Libra, Aquarius} \<and>
   get_constellation_element [] = unknown_element \<and>
   unknown_element \<notin> {fire_element, water_element, earth_element, air_element}"
proof -
  have h: "[] \<notin> {Aries, Leo, Sagittarius, Cancer, Scorpio, Pisces,
                  Taurus, Virgo, Capricorn, Gemini, Libra, Aquarius}"
    by (simp add: sign_defs)
  from classify_table have
    "\<forall>s. s \<notin> {Aries, Leo, Sagittarius, Cancer, Scorpio, Pisces,
               Taurus, Virgo, Capricorn, Gemini, Libra, Aquarius}
        \<longrightarrow> get_constellation_element s = unknown_element"
    by (elim conjE)
  with h have "get_constellation_element [] = unknown_element"
    by blast
  with h show ?thesis
    by (simp add: element_defs)
qed

subsection \<open>The prompt builder\<close>



text \<open>
  Claim C7. \<open>build_system_prompt\<close> is a function of the four keys it reads: two
  profiles that agree on them give the same prompt. Two profiles that differ only in
  the birth date give prompts with a common part before and a common part after the
  birth-date part, which is there if and only if the birth date is not empty.
\<close>

theorem prompt_birth_date_only:
  "(map_of ui1 (ascii ''name'') = map_of ui2 (ascii ''name'') \<and>
    map_of ui1 (ascii ''constellation'') = map_of ui2 (ascii ''constellation'') \<and>
    map_of ui1 (ascii ''birth_date'') = map_of ui2 (ascii ''birth_date'') \<and>
    map_of ui1 (ascii ''birth_time'') = map_of ui2 (ascii ''birth_time'')
      \<longrightarrow> build_system_prompt ui1 = build_system_prompt ui2) \<and>
   ((\<forall>k. k \<noteq> ascii ''birth_date'' \<longrightarrow> map_of ui1 k = map_of ui2 k)
      \<longrightarrow> (\<exists>pre post.
            build_system_prompt ui1 =
              pre @ (if dict_get ui1 (ascii ''birth_date'') [] \<noteq> []
                     then newline # label_birth_date @ dict_get ui1 (ascii ''birth_date'') []
                     else []) @ post \<and>
            build_system_prompt ui2 =
              pre @ (if dict_get ui2 (ascii ''birth_date'') [] \<noteq> []
                     then newline # label_birth_date @ dict_get ui2 (ascii ''birth_date'') []
                     else []) @ post))"
proof (intro conjI impI)
  assume "map_of ui1 (ascii ''name'') = map_of ui2 (ascii ''name'') \<and>
    map_of ui1 (ascii ''constellation'') = map_of ui2 (ascii ''constellation'') \<and>
    map_of ui1 (ascii ''birth_date'') = map_of ui2 (ascii ''birth_date'') \<and>
    map_of ui1 (ascii ''birth_time'') = map_of ui2 (ascii ''birth_time'')"
  then show "build_system_prompt ui1 = build_system_prompt ui2"
    by (simp add: build_system_prompt_def dict_get_def)
next
  assume a: "\<forall>k. k \<noteq> ascii ''birth_date'' \<longrightarrow> map_of ui1 k = map_of ui2 k"
  define n where "n = dict_get ui1 (ascii ''name'') default_name"
  define c where "c = dict_get ui1 (ascii ''constellation'') []"
  define t where "t = dict_get ui1 (ascii ''birth_time'') []"
  define pre where "pre = SYSTEM_PROMPT @ seg_profile_header @ label_name @ n @
     newline # label_constellation @ c @ newline # label_element @ get_constellation_element c"
  define post where "post = (if t \<noteq> [] then newline # label_birth_time @ t else []) @
     seg_requirements @ c @ seg_open_paren @ get_constellation_element c @
     seg_traits @ dear @ n @ seg_closing"
  have n2: "dict_get ui2 (ascii ''name'') default_name = n"
    unfolding n_def using a by (intro agree_dict_get [symmetric]) simp
  have c2: "dict_get ui2 (ascii ''constellation'') [] = c"
    unfolding c_def using a by (intro agree_dict_get [symmetric]) simp
  have t2: "dict_get ui2 (ascii ''birth_time'') [] = t"
    unfolding t_def using a by (intro agree_dict_get [symmetric]) simp
  have shape: "build_system_prompt ui =
      pre @ (if dict_get ui (ascii ''birth_date'') [] \<noteq> []
             then newline # label_birth_date @ dict_get ui (ascii ''birth_date'') []
             else []) @ post"
    if "dict_get ui (ascii ''name'') default_name = n"
       "dict_get ui (ascii ''constellation'') [] = c"
       "dict_get ui (ascii ''birth_time'') [] = t" for ui
    using that
    by (simp add: build_system_prompt_def astro_info_def Let_def pre_def post_def)
  have "build_system_prompt ui1 =
      pre @ (if dict_get ui1 (ascii ''birth_date'') [] \<noteq> []
             then newline # label_birth_date @ dict_get ui1 (ascii ''birth_date'') []
             else []) @ post"
    by (rule shape) (simp_all add: n_def c_def t_def)
  moreover have "build_system_prompt ui2 =
      pre @ (if dict_get ui2 (ascii ''birth_date'') [] \<noteq> []
             then newline # label_birth_date @ dict_get ui2 (ascii ''birth_date'') []
             else []) @ post"
    by (rule shape) (simp_all add: n2 c2 t2)
  ultimately show "\<exists>pre post.
            build_system_prompt ui1 =
              pre @ (if dict_get ui1 (ascii ''birth_date'') [] \<noteq> []
                     then newline # label_birth_date @ dict_get ui1 (ascii ''birth_date'') []
                     else []) @ post \<and>
            build_system_prompt ui2 =
              pre @ (if dict_get ui2 (ascii ''birth_date'') [] \<noteq> []
                     then newline # label_birth_date @ dict_get ui2 (ascii ''birth_date'') []
                     else []) @ post"
    by blast
qed

text \<open>
  Alex, Leo, with and without the birth date 1990-08-01; and a profile with one more
  key, which the builder does not read.
\<close>

theorem prompt_birth_date_only_witness:
  "(\<exists>pre post.
      build_system_prompt (profile (ascii ''Alex'') Leo (ascii ''1990-08-01'') []) =
        pre @ (newline # label_birth_date @ ascii ''1990-08-01'') @ post \<and>
      build_system_prompt (profile (ascii ''Alex'') Leo [] []) = pre @ post) \<and>
   build_system_prompt (profile (ascii ''Alex'') Leo [] [] @ [(ascii ''mood'', [])]) =
     build_system_prompt (profile (ascii ''Alex'') Leo [] [])"
proof -
  let ?p1 = "profile (ascii ''Alex'') Leo (ascii ''1990-08-01'') []"
  let ?p2 = "profile (ascii ''Alex'') Leo [] []"
  have differ: "\<forall>k. k \<noteq> ascii ''birth_date'' \<longrightarrow> map_of ?p1 k = map_of ?p2 k"
    by (simp add: profile_def)
  have d1: "dict_get ?p1 (ascii ''birth_date'') [] = ascii ''1990-08-01''"
    and d2: "dict_get ?p2 (ascii ''birth_date'') [] = []"
    and ne: "ascii ''1990-08-01'' \<noteq> []"
    by (simp_all add: profile_def dict_get_def ascii_def)
  from prompt_birth_date_only [of ?p1 ?p2] differ
  have "\<exists>pre post.
      build_system_prompt ?p1 =
        pre @ (if dict_get ?p1 (ascii ''birth_date'') [] \<noteq> []
               then newline # label_birth_date @ dict_get ?p1 (ascii ''birth_date'') []
               else []) @ post \<and>
      build_system_prompt ?p2 =
        pre @ (if dict_get ?p2 (ascii ''birth_date'') [] \<noteq> []
               then newline # label_birth_date @ dict_get ?p2 (ascii ''birth_date'') []
               else []) @ post"
    by blast
  then have first: "\<exists>pre post.
      build_system_prompt ?p1 = pre @ (newline # label_birth_date @ ascii ''1990-08-01'') @ post \<and>
      build_system_prompt ?p2 = pre @ post"
    by (simp add: d1 d2 ne)
  have same: "map_of (?p2 @ [(ascii ''mood'', [])]) (ascii ''name'') = map_of ?p2 (ascii ''name'') \<and>
    map_of (?p2 @ [(ascii ''mood'', [])]) (ascii ''constellation'') = map_of ?p2 (ascii ''constellation'') \<and>
    map_of (?p2 @ [(ascii ''mood'', [])]) (ascii ''birth_date'') = map_of ?p2 (ascii ''birth_date'') \<and>
    map_of (?p2 @ [(ascii ''mood'', [])]) (ascii ''birth_time'') = map_of ?p2 (ascii ''birth_time'')"
    by (simp add: profile_def)
  from prompt_birth_date_only [of "?p2 @ [(ascii ''mood'', [])]" ?p2] same
  have "build_system_prompt (?p2 @ [(ascii ''mood'', [])]) = build_system_prompt ?p2"
    by blast
  with first show ?thesis by blast
qed



text \<open>
  Claim C8. The profile is the one of the form. When the form is confirmed with an empty
  name field, the stored profile has the fallback name (lines 188-189), the stored
  prompt is built from it, and it ends with the honorific, the fallback name and the
  closing literal. Every profile that a confirmation stores has a name that is not
  empty, and its prompt has that name after the honorific: the name slot is never
  empty. The builder has the same fallback for a profile without a name key (line 79).
\<close>

theorem fallback_name:
  "(map_of ui (ascii ''name'') = None \<longrightarrow>
      suffix (dear @ default_name @ seg_closing) (build_system_prompt ui)) \<and>
   (form_shown st \<and> confirm_clicked w \<and> constellation_choice w \<noteq> [] \<and> name_text w = [] \<longrightarrow>
      (let st' = fst (sidebar w st)
       in map_of (user_info st') (ascii ''name'') = Some default_name \<and>
          system_prompt st' = Some (build_system_prompt (user_info st')) \<and>
          suffix (dear @ default_name @ seg_closing) (build_system_prompt (user_info st')))) \<and>
   (form_shown st \<and> confirm_clicked w \<and> constellation_choice w \<noteq> [] \<longrightarrow>
      (\<exists>n. n \<noteq> [] \<and>
         map_of (user_info (fst (sidebar w st))) (ascii ''name'') = Some n \<and>
         suffix (dear @ n @ seg_closing)
           (build_system_prompt (user_info (fst (sidebar w st))))))"
proof (intro conjI impI)
  assume "map_of ui (ascii ''name'') = None"
  then show "suffix (dear @ default_name @ seg_closing) (build_system_prompt ui)"
    using build_system_prompt_honorific [of ui] by (simp add: dict_get_def)
next
  assume a: "form_shown st \<and> confirm_clicked w \<and> constellation_choice w \<noteq> [] \<and> name_text w = []"
  then have "fst (sidebar w st) =
      \<lparr>user_info = profile default_name (constellation_choice w) (birth_date_text w) (birth_time_text w),
       messages = [\<lparr>role = ascii ''system'', content = build_system_prompt
          (profile default_name (constellation_choice w) (birth_date_text w) (birth_time_text w))\<rparr>],
       system_prompt = Some (build_system_prompt
          (profile default_name (constellation_choice w) (birth_date_text w) (birth_time_text w)))\<rparr>"
    by (simp add: sidebar_def confirm_handler_def Let_def)
  then show "let st' = fst (sidebar w st)
       in map_of (user_info st') (ascii ''name'') = Some default_name \<and>
          system_prompt st' = Some (build_system_prompt (user_info st')) \<and>
          suffix (dear @ default_name @ seg_closing) (build_system_prompt (user_info st'))"
    using build_system_prompt_honorific [of "profile default_name (constellation_choice w) (birth_date_text w) (birth_time_text w)"]
    by (simp add: Let_def profile_def dict_get_def)
next
  assume a: "form_shown st \<and> confirm_clicked w \<and> constellation_choice w \<noteq> []"
  define n where "n = (if name_text w \<noteq> [] then name_text w else default_name)"
  have n: "n \<noteq> []"
    by (simp add: n_def default_name_def)
  from a have "user_info (fst (sidebar w st)) =
      profile n (constellation_choice w) (birth_date_text w) (birth_time_text w)"
    by (simp add: sidebar_def confirm_handler_def Let_def n_def)
  moreover have "map_of (profile n (constellation_choice w) (birth_date_text w) (birth_time_text w))
      (ascii ''name'') = Some n"
    by (simp add: profile_def)
  moreover have "suffix (dear @ n @ seg_closing) (build_system_prompt
      (profile n (constellation_choice w) (birth_date_text w) (birth_time_text w)))"
    using build_system_prompt_honorific [of "profile n (constellation_choice w) (birth_date_text w) (birth_time_text w)"]
    by (simp add: profile_def dict_get_def)
  ultimately show "\<exists>n. n \<noteq> [] \<and>
         map_of (user_info (fst (sidebar w st))) (ascii ''name'') = Some n \<and>
         suffix (dear @ n @ seg_closing)
           (build_system_prompt (user_info (fst (sidebar w st))))"
    using n by auto
qed

text \<open>
  A profile with the constellation key only; and the first confirmation of a session,
  with the name field left empty and Leo selected.
\<close>

theorem fallback_name_witness:
  "map_of [(ascii ''constellation'', Leo)] (ascii ''name'') = None \<and>
   suffix (dear @ default_name @ seg_closing)
     (build_system_prompt [(ascii ''constellation'', Leo)]) \<and>
   form_shown init_session_state \<and>
   system_prompt (fst (sidebar
      \<lparr>name_text = [], constellation_choice = Leo, birth_date_text = [],
       birth_time_text = [], confirm_clicked = True, reset_clicked = False\<rparr>
      init_session_state)) =
     Some (build_system_prompt (profile default_name Leo [] [])) \<and>
   suffix (dear @ default_name @ seg_closing)
     (build_system_prompt (profile default_name Leo [] []))"
proof -
  let ?w = "\<lparr>name_text = [], constellation_choice = Leo, birth_date_text = [],
       birth_time_text = [], confirm_clicked = True, reset_clicked = False\<rparr>"
  have absent: "map_of [(ascii ''constellation'', Leo)] (ascii ''name'') = None"
    by simp
  have h: "form_shown init_session_state \<and> confirm_clicked ?w \<and>
           constellation_choice ?w \<noteq> [] \<and> name_text ?w = []"
    by (simp add: form_shown_init Leo_def)
  have u: "user_info (fst (sidebar ?w init_session_state)) = profile default_name Leo [] []"
    using h by (simp add: sidebar_def confirm_handler_def Let_def)
  from fallback_name [of "[(ascii ''constellation'', Leo)]" init_session_state ?w] absent
  have one: "suffix (dear @ default_name @ seg_closing)
      (build_system_prompt [(ascii ''constellation'', Leo)])"
    by blast
  from fallback_name [of "[(ascii ''constellation'', Leo)]" init_session_state ?w] h
  have "let st' = fst (sidebar ?w init_session_state)
       in map_of (user_info st') (ascii ''name'') = Some default_name \<and>
          system_prompt st' = Some (build_system_prompt (user_info st')) \<and>
          suffix (dear @ default_name @ seg_closing) (build_system_prompt (user_info st'))"
    by blast
  then have two: "system_prompt (fst (sidebar ?w init_session_state)) =
        Some (build_system_prompt (profile default_name Leo [] [])) \<and>
      suffix (dear @ default_name @ seg_closing)
        (build_system_prompt (profile default_name Leo [] []))"
    by (simp add: Let_def u)
  from absent one h two show ?thesis by blast
qed

subsection \<open>Credential and completion client\<close>

text \<open>
  Claim C9. When the secret store has the group \<open>deepseek\<close> with the field
  \<open>api_key\<close>, its value is the result, whatever the environment holds. When the
  lookup in the store raises, or finds no such group or field, the result is the one
  of a run without a secret store: the exception goes no further. That result is the
  value of the environment variable \<open>DEEPSEEK_API_KEY\<close> when it is set and not empty,
  and \<open>None\<close> when it is unset or empty.
\<close>

theorem get_api_key_order:
  "(map_of t (ascii ''deepseek'') = Some (Group g) \<and> map_of g (ascii ''api_key'') = Some k
      \<longrightarrow> get_api_key (Secrets t) env = Some k) \<and>
   (secrets_lookup s = Raised e \<longrightarrow> get_api_key s env = get_api_key NoSecrets env) \<and>
   (secrets_lookup s = Returned None \<longrightarrow> get_api_key s env = get_api_key NoSecrets env) \<and>
   (getenv env (ascii ''DEEPSEEK_API_KEY'') = Some v \<and> v \<noteq> []
      \<longrightarrow> get_api_key NoSecrets env = Some v) \<and>
   (getenv env (ascii ''DEEPSEEK_API_KEY'') = None \<or>
    getenv env (ascii ''DEEPSEEK_API_KEY'') = Some []
      \<longrightarrow> get_api_key NoSecrets env = None)"
  by (auto simp: get_api_key_def secrets_lookup_def truthy_def)

text \<open>
  A store with the key and an environment with another key; a store whose access
  raises; an empty store with the variable set to the empty string, and with no
  variable.
\<close>

theorem get_api_key_order_witness:
  "get_api_key (Secrets [(ascii ''deepseek'', Group [(ascii ''api_key'', ascii ''sk-1'')])])
     [(ascii ''DEEPSEEK_API_KEY'', ascii ''sk-2'')] = Some (ascii ''sk-1'') \<and>
   secrets_lookup (SecretsBroken (ascii ''no secrets file'')) = Raised (ascii ''no secrets file'') \<and>
   get_api_key (SecretsBroken (ascii ''no secrets file''))
     [(ascii ''DEEPSEEK_API_KEY'', ascii ''sk-2'')] = Some (ascii ''sk-2'') \<and>
   secrets_lookup (Secrets []) = Returned None \<and>
   get_api_key (Secrets []) [(ascii ''DEEPSEEK_API_KEY'', [])] = None \<and>
   get_api_key (Secrets []) [] = None"
proof -
  let ?t = "[(ascii ''deepseek'', Group [(ascii ''api_key'', ascii ''sk-1'')])]"
  let ?env = "[(ascii ''DEEPSEEK_API_KEY'', ascii ''sk-2'')]"
  let ?e = "ascii ''no secrets file''"
  have p1: "map_of ?t (ascii ''deepseek'') = Some (Group [(ascii ''api_key'', ascii ''sk-1'')]) \<and>
            map_of [(ascii ''api_key'', ascii ''sk-1'')] (ascii ''api_key'') = Some (ascii ''sk-1'')"
    by simp
  have p2: "secrets_lookup (SecretsBroken ?e) = Raised ?e"
    by (simp add: secrets_lookup_def)
  have p3: "secrets_lookup (Secrets []) = Returned None"
    by (simp add: secrets_lookup_def)
  have p4: "getenv ?env (ascii ''DEEPSEEK_API_KEY'') = Some (ascii ''sk-2'') \<and> ascii ''sk-2'' \<noteq> []"
    by (simp add: getenv_def ascii_def)
  have p5: "getenv [(ascii ''DEEPSEEK_API_KEY'', [])] (ascii ''DEEPSEEK_API_KEY'') = Some []"
    by (simp add: getenv_def)
  have p6: "getenv [] (ascii ''DEEPSEEK_API_KEY'') = None"
    by (simp add: getenv_def)
  have a: "get_api_key (Secrets ?t) ?env = Some (ascii ''sk-1'')"
    using get_api_key_order [of ?t "[(ascii ''api_key'', ascii ''sk-1'')]" "ascii ''sk-1''" ?env] p1
    by blast
  have b: "get_api_key (SecretsBroken ?e) ?env = Some (ascii ''sk-2'')"
    using get_api_key_order [of _ _ _ ?env "SecretsBroken ?e" ?e "ascii ''sk-2''"] p2 p4
    by metis
  have c: "get_api_key (Secrets []) [(ascii ''DEEPSEEK_API_KEY'', [])] = None"
    using get_api_key_order [of _ _ _ "[(ascii ''DEEPSEEK_API_KEY'', [])]" "Secrets []"] p3 p5
    by metis
  have d: "get_api_key (Secrets []) [] = None"
    using get_api_key_order [of _ _ _ "[]" "Secrets []"] p3 p6
    by metis
  from a b c d p2 p3 show ?thesis by blast
qed

text \<open>
  Claim C4. Without a client \<open>get_ai_response\<close> returns the message of line 124 and the
  log of calls is the one it was given, for every transcript and every remote service.
  There is no client when the first call of \<open>get_client\<close> finds no credential or an
  empty one, and from then on whatever the credential is, since that result is cached.
\<close>

theorem no_credential_no_call:
  "get_client None None = (None, Some None) \<and>
   get_client None (Some []) = (None, Some None) \<and>
   get_client (Some None) key = (None, Some None) \<and>
   get_ai_response None remote user_input msgs calls = (msg_no_api_key, calls)"
  by (simp add: get_client_def get_ai_response_def)

text \<open>
  Claim C10. The reply and the calls made do not depend on \<open>user_input\<close>: with the same
  client, remote service, transcript and log, two user inputs give the same result.
\<close>

theorem reply_ignores_user_input:
  "get_ai_response client remote user_input1 msgs calls =
   get_ai_response client remote user_input2 msgs calls"
  by (simp add: get_ai_response_def)

subsection \<open>Session state\<close>

text \<open>
  Claim C5. The confirm handler with an empty constellation returns the session state
  it was given, whatever that state is, and shows the validation message of line 226;
  so does the sidebar, when the form is shown, the button clicked and nothing selected.
\<close>

theorem confirm_rejects_empty:
  "confirm_handler name [] birth_date birth_time st = (st, [StError msg_select_constellation]) \<and>
   (form_shown st \<and> confirm_clicked w \<and> constellation_choice w = []
      \<longrightarrow> sidebar w st = (st, [StError msg_select_constellation]))"
  by (simp add: confirm_handler_def sidebar_def)

text \<open>
  A new session, the name Alex typed, no constellation selected.
\<close>

theorem confirm_rejects_empty_witness:
  "form_shown init_session_state \<and>
   sidebar \<lparr>name_text = ascii ''Alex'', constellation_choice = [], birth_date_text = [],
            birth_time_text = [], confirm_clicked = True, reset_clicked = False\<rparr>
     init_session_state = (init_session_state, [StError msg_select_constellation])"
  using confirm_rejects_empty [of "ascii ''Alex''" "[]" "[]" init_session_state
      "\<lparr>name_text = ascii ''Alex'', constellation_choice = [], birth_date_text = [],
        birth_time_text = [], confirm_clicked = True, reset_clicked = False\<rparr>"]
  by (simp add: form_shown_init)

text \<open>
  Claim C6. When the form is shown and confirmed with a constellation selected, the
  new state holds the profile of the form (the fallback name for an empty name field),
  a transcript of exactly one message, of role system, whose content is the prompt built
  from that profile, and that same prompt as \<open>system_prompt\<close>.
\<close>

theorem confirm_sets_system_message:
  "form_shown st \<and> confirm_clicked w \<and> constellation_choice w \<noteq> [] \<longrightarrow>
     (let info = profile (if name_text w \<noteq> [] then name_text w else default_name)
                   (constellation_choice w) (birth_date_text w) (birth_time_text w);
          prompt = build_system_prompt info
      in sidebar w st =
           (\<lparr>user_info = info,
             messages = [\<lparr>role = ascii ''system'', content = prompt\<rparr>],
             system_prompt = Some prompt\<rparr>, [StRerun]))"
  by (simp add: confirm_handler_def sidebar_def Let_def)

text \<open>
  A new session, whose transcript is empty, confirmed with the name Alex and Leo.
\<close>

theorem confirm_sets_system_message_witness:
  "form_shown init_session_state \<and> messages init_session_state = [] \<and>
   sidebar \<lparr>name_text = ascii ''Alex'', constellation_choice = Leo, birth_date_text = [],
            birth_time_text = [], confirm_clicked = True, reset_clicked = False\<rparr>
     init_session_state =
       (\<lparr>user_info = profile (ascii ''Alex'') Leo [] [],
         messages = [\<lparr>role = ascii ''system'',
                      content = build_system_prompt (profile (ascii ''Alex'') Leo [] [])\<rparr>],
         system_prompt = Some (build_system_prompt (profile (ascii ''Alex'') Leo [] []))\<rparr>,
        [StRerun])"
proof -
  let ?w = "\<lparr>name_text = ascii ''Alex'', constellation_choice = Leo, birth_date_text = [],
        birth_time_text = [], confirm_clicked = True, reset_clicked = False\<rparr>"
  have h: "form_shown init_session_state \<and> confirm_clicked ?w \<and> constellation_choice ?w \<noteq> []"
    by (simp add: form_shown_init Leo_def)
  have e: "messages init_session_state = []"
    by (simp add: init_session_state_def)
  have n: "name_text ?w \<noteq> []"
    by (simp add: ascii_def)
  from confirm_sets_system_message [of init_session_state ?w] h
  have "let info = profile (if name_text ?w \<noteq> [] then name_text ?w else default_name)
                   (constellation_choice ?w) (birth_date_text ?w) (birth_time_text ?w);
          prompt = build_system_prompt info
      in sidebar ?w init_session_state =
           (\<lparr>user_info = info,
             messages = [\<lparr>role = ascii ''system'', content = prompt\<rparr>],
             system_prompt = Some prompt\<rparr>, [StRerun])"
    by blast
  with n have "sidebar ?w init_session_state =
       (\<lparr>user_info = profile (ascii ''Alex'') Leo [] [],
         messages = [\<lparr>role = ascii ''system'',
                      content = build_system_prompt (profile (ascii ''Alex'') Leo [] [])\<rparr>],
         system_prompt = Some (build_system_prompt (profile (ascii ''Alex'') Leo [] []))\<rparr>,
        [StRerun])"
    by (simp add: Let_def)
  with h e show ?thesis by blast
qed

text \<open>
  Claim C3. When the chat is shown and a text that is not empty is submitted, the new
  transcript is the old one followed by the user message with that text and then the
  assistant message with the reply to the transcript extended by the user message. Its
  length is the old length plus two, the old messages keep their places, the one at
  index 0 among them, and the profile and the system prompt are unchanged.
\<close>

theorem chat_turn_appends_two:
  "chat_shown st \<and> prompt \<noteq> [] \<longrightarrow>
     (let st' = fst (chat_area client remote (Some prompt) st calls);
          user_message = \<lparr>role = ascii ''user'', content = prompt\<rparr>;
          reply = fst (get_ai_response client remote prompt (messages st @ [user_message]) calls)
      in messages st' =
           messages st @ [user_message, \<lparr>role = ascii ''assistant'', content = reply\<rparr>] \<and>
         length (messages st') = length (messages st) + 2 \<and>
         take (length (messages st)) (messages st') = messages st \<and>
         (messages st \<noteq> [] \<longrightarrow> messages st' ! 0 = messages st ! 0) \<and>
         user_info st' = user_info st \<and>
         system_prompt st' = system_prompt st)"
  by (simp add: chat_area_def chat_turn_def Let_def split_beta nth_append)

text \<open>
  A confirmed session with its system message, one turn without a client: three
  messages, system, user, assistant.
\<close>

theorem chat_turn_appends_two_witness:
  "chat_shown \<lparr>user_info = profile (ascii ''Alex'') Leo [] [],
               messages = [\<lparr>role = ascii ''system'', content = ascii ''p''\<rparr>],
               system_prompt = Some (ascii ''p'')\<rparr> \<and>
   ascii ''hi'' \<noteq> [] \<and>
   messages (fst (chat_area None (\<lambda>c r. Raised []) (Some (ascii ''hi''))
       \<lparr>user_info = profile (ascii ''Alex'') Leo [] [],
        messages = [\<lparr>role = ascii ''system'', content = ascii ''p''\<rparr>],
        system_prompt = Some (ascii ''p'')\<rparr> [])) =
     [\<lparr>role = ascii ''system'', content = ascii ''p''\<rparr>,
      \<lparr>role = ascii ''user'', content = ascii ''hi''\<rparr>,
      \<lparr>role = ascii ''assistant'', content = msg_no_api_key\<rparr>]"
proof -
  let ?st = "\<lparr>user_info = profile (ascii ''Alex'') Leo [] [],
               messages = [\<lparr>role = ascii ''system'', content = ascii ''p''\<rparr>],
               system_prompt = Some (ascii ''p'')\<rparr>"
  have h: "chat_shown ?st \<and> ascii ''hi'' \<noteq> []"
    by (simp add: chat_shown_def profile_def truthy_def Leo_def ascii_def)
  have r: "fst (get_ai_response None (\<lambda>c r. Raised []) (ascii ''hi'')
              (messages ?st @ [\<lparr>role = ascii ''user'', content = ascii ''hi''\<rparr>]) []) =
           msg_no_api_key"
    by (simp add: get_ai_response_def)
  from chat_turn_appends_two [of ?st "ascii ''hi''" None "\<lambda>c r. Raised []" "[]"] h
  have "messages (fst (chat_area None (\<lambda>c r. Raised []) (Some (ascii ''hi'')) ?st [])) =
          messages ?st @ [\<lparr>role = ascii ''user'', content = ascii ''hi''\<rparr>,
            \<lparr>role = ascii ''assistant'',
             content = fst (get_ai_response None (\<lambda>c r. Raised []) (ascii ''hi'')
               (messages ?st @ [\<lparr>role = ascii ''user'', content = ascii ''hi''\<rparr>]) [])\<rparr>]"
    unfolding Let_def by blast
  with h r show ?thesis by simp
qed

end
